theory Spec2Isabelle
  imports Main "HOL-Library.Word"
begin

section \<open>Outcomes of a call\<close>

text \<open>
  A call either returns or stops the program. \<open>Inl\<close> carries the reason the program
  stopped: a failed debug assertion (\<open>DCHECK\<close>), or a read through a null or a
  dangling pointer. Every \<open>DCHECK\<close> of \<open>ref_counted.h\<close> and of
  \<open>callback_internal.cc\<close> is commented out in the source (the lines starting with
  \<open>///\<close>), so no function below has a branch that returns \<open>Inl AssertionFailure\<close>.
\<close>

datatype fault = AssertionFailure | NullDereference | DanglingPointer

section \<open>\<open>subtle::RefCountedBase\<close> (memory/ref\_counted.h)\<close>

text \<open>
  The only data member left in this build is \<open>mutable uint32_t ref_count_ = 0\<close>
  (the source's trailing underscore is not a legal name here). The members
  \<open>needs_adopt_ref_\<close>, \<open>in_dtor_\<close> and \<open>sequence_checker_\<close> are commented out.
  Derived classes extend the record.
\<close>

record RefCountedBase =
  ref_count :: "32 word"

datatype StartRefCountTag = StartRefCountFromZeroTag | StartRefCountFromOneTag

text \<open>The two constructors: the member initialiser \<open>= 0\<close>, or \<open>ref_count_(1)\<close>.\<close>

fun RefCountedBase_ctor :: "StartRefCountTag \<Rightarrow> RefCountedBase" where
  "RefCountedBase_ctor StartRefCountFromZeroTag = \<lparr>ref_count = 0\<rparr>"
| "RefCountedBase_ctor StartRefCountFromOneTag = \<lparr>ref_count = 1\<rparr>"

definition HasOneRef :: "'a RefCountedBase_scheme \<Rightarrow> bool" where
  "HasOneRef this = (ref_count this = 1)"

text \<open>
  \<open>void AddRefImpl() const { ++ref_count_; }\<close>: the inline body of the branch taken when
  \<open>ARCH_CPU_64_BITS\<close> is not defined. The out-of-line body of the other branch is not
  part of the sources at hand.
\<close>

definition RefCountedBase_AddRefImpl ::
  "'a RefCountedBase_scheme \<Rightarrow> 'a RefCountedBase_scheme" where
  "RefCountedBase_AddRefImpl this = this\<lparr>ref_count := ref_count this + 1\<rparr>"

text \<open>\<open>AddRef\<close>: its three \<open>DCHECK\<close>s are commented out; what is left calls \<open>AddRefImpl\<close>.\<close>

definition RefCountedBase_AddRef ::
  "'a RefCountedBase_scheme \<Rightarrow> fault + 'a RefCountedBase_scheme" where
  "RefCountedBase_AddRef this = Inr (RefCountedBase_AddRefImpl this)"

text \<open>
  \<open>Release\<close>: \<open>--ref_count_; return ref_count_ == 0;\<close>. The result pairs the returned
  flag ("the object should self-delete") with the updated object.
\<close>

definition RefCountedBase_Release ::
  "'a RefCountedBase_scheme \<Rightarrow> fault + (bool \<times> 'a RefCountedBase_scheme)" where
  "RefCountedBase_Release this =
     (let this' = this\<lparr>ref_count := ref_count this - 1\<rparr>
      in Inr (ref_count this' = 0, this'))"

text \<open>\<open>Adopted\<close>: the body is commented out as a whole.\<close>

definition RefCountedBase_Adopted ::
  "'a RefCountedBase_scheme \<Rightarrow> fault + 'a RefCountedBase_scheme" where
  "RefCountedBase_Adopted this = Inr this"

definition IsOnValidSequence :: "'a RefCountedBase_scheme \<Rightarrow> bool" where
  "IsOnValidSequence this = True"

section \<open>\<open>RefCounted<T, Traits>\<close>\<close>

text \<open>
  \<open>Traits::Destruct\<close> is a template parameter. The payload modelled here counts the
  invocations of its \<open>Destruct\<close> hook in \<open>destruct_calls\<close>, which is all the
  reference-counting layer can observe of it.
\<close>

record RefCounted = RefCountedBase +
  destruct_calls :: nat

definition RefCounted_ctor :: "StartRefCountTag \<Rightarrow> RefCounted" where
  "RefCounted_ctor kRefCountPreference =
     \<lparr>ref_count = ref_count (RefCountedBase_ctor kRefCountPreference), destruct_calls = 0\<rparr>"

definition Traits_Destruct :: "RefCounted \<Rightarrow> RefCounted" where
  "Traits_Destruct x = x\<lparr>destruct_calls := destruct_calls x + 1\<rparr>"


text \<open>\<open>if (subtle::RefCountedBase::Release()) Traits::Destruct(this);\<close>\<close>

definition RefCounted_Release :: "RefCounted \<Rightarrow> fault + RefCounted" where
  "RefCounted_Release this =
     (case RefCountedBase_Release this of
        Inl e \<Rightarrow> Inl e
      | Inr (should_delete, this') \<Rightarrow>
          Inr (if should_delete then Traits_Destruct this' else this'))"

subsection \<open>Sequences of calls on one payload\<close>






section \<open>\<open>AtomicRefCount\<close> and \<open>subtle::RefCountedThreadSafeBase\<close>\<close>

text \<open>
  Modelled from the spec: \<open>atomic/atomic_ref_count.h\<close> is not among the sources. The
  specification calls the thread-safe count an "atomic integer" changed by "atomic
  fetch-add/fetch-sub", and gives it no width, so the count is an unbounded integer here.
  \<open>Increment\<close> adds one.
\<close>

type_synonym AtomicRefCount = int

definition AtomicRefCount_Increment :: "AtomicRefCount \<Rightarrow> AtomicRefCount" where
  "AtomicRefCount_Increment c = c + 1"

text \<open>
  Modelled from the spec: \<open>AtomicRefCount::Decrement\<close> is not among the sources. It
  subtracts one; \<open>ReleaseImpl\<close> below reads its result as "the count is still non-zero",
  which is the specification's "exactly one decrementer observes the now-zero transition".
\<close>

definition AtomicRefCount_Decrement :: "AtomicRefCount \<Rightarrow> bool \<times> AtomicRefCount" where
  "AtomicRefCount_Decrement c = (c - 1 \<noteq> 0, c - 1)"

text \<open>\<open>mutable AtomicRefCount ref_count_{0}\<close> is the only member left in this build.\<close>

record RefCountedThreadSafeBase =
  atomic_ref_count :: AtomicRefCount

fun RefCountedThreadSafeBase_ctor :: "StartRefCountTag \<Rightarrow> RefCountedThreadSafeBase" where
  "RefCountedThreadSafeBase_ctor StartRefCountFromZeroTag = \<lparr>atomic_ref_count = 0\<rparr>"
| "RefCountedThreadSafeBase_ctor StartRefCountFromOneTag = \<lparr>atomic_ref_count = 1\<rparr>"

text \<open>\<open>AddRefImpl\<close>: \<open>ref_count_.Increment();\<close> (the \<open>DCHECK\<close>s are commented out).\<close>

definition RefCountedThreadSafeBase_AddRefImpl ::
  "'a RefCountedThreadSafeBase_scheme \<Rightarrow> 'a RefCountedThreadSafeBase_scheme" where
  "RefCountedThreadSafeBase_AddRefImpl this =
     this\<lparr>atomic_ref_count := AtomicRefCount_Increment (atomic_ref_count this)\<rparr>"

text \<open>\<open>ReleaseImpl\<close>: \<open>if (!ref_count_.Decrement()) return true; return false;\<close>\<close>

definition RefCountedThreadSafeBase_ReleaseImpl ::
  "'a RefCountedThreadSafeBase_scheme \<Rightarrow> bool \<times> 'a RefCountedThreadSafeBase_scheme" where
  "RefCountedThreadSafeBase_ReleaseImpl this =
     (case AtomicRefCount_Decrement (atomic_ref_count this) of
        (still_referenced, c) \<Rightarrow>
          if \<not> still_referenced then (True, this\<lparr>atomic_ref_count := c\<rparr>)
          else (False, this\<lparr>atomic_ref_count := c\<rparr>))"

text \<open>The inline \<open>AddRef\<close> and \<open>Release\<close> of the \<open>ARCH_CPU_X86_FAMILY\<close> branch.\<close>

definition RefCountedThreadSafeBase_AddRef ::
  "'a RefCountedThreadSafeBase_scheme \<Rightarrow> 'a RefCountedThreadSafeBase_scheme" where
  "RefCountedThreadSafeBase_AddRef this = RefCountedThreadSafeBase_AddRefImpl this"

definition RefCountedThreadSafeBase_Release ::
  "'a RefCountedThreadSafeBase_scheme \<Rightarrow> bool \<times> 'a RefCountedThreadSafeBase_scheme" where
  "RefCountedThreadSafeBase_Release this = RefCountedThreadSafeBase_ReleaseImpl this"

section \<open>\<open>internal::BindStateBase\<close> (functional/callback\_internal.cc)\<close>

text \<open>
  Function pointers that the callback layer stores and never inspects are opaque values.
\<close>

datatype InvokeFuncStorage = InvokeFunc nat

datatype DestructorFunc = DestructorFunc nat

text \<open>
  The class declaration (\<open>functional/callback_internal.h\<close>) is not among the sources; the
  members are those that the constructor in \<open>callback_internal.cc\<close> initialises, on top
  of the thread-safe count that \<open>BindStateBaseRefCountTraits\<close> serves. The object behind
  a \<open>BindStateBase*\<close> is a concrete bind state: \<open>bound_args\<close> stands for the captured
  function and arguments of the derived class, of a type \<open>'args\<close> the base never looks
  at. A cancellation predicate receives the pointer and casts it back to the derived
  class, so it is a function of those data.
\<close>

record 'args BindStateBase = RefCountedThreadSafeBase +
  polymorphic_invoke :: InvokeFuncStorage
  destructor :: DestructorFunc
  is_cancelled :: "'args \<Rightarrow> bool"
  bound_args :: 'args

text \<open>\<open>bool ReturnFalse(const BindStateBase*) { return false; }\<close>\<close>

definition ReturnFalse :: "'args \<Rightarrow> bool" where
  "ReturnFalse bind_state = False"

text \<open>
  The three-argument constructor stores its arguments. \<open>kRefCountPreference\<close> (declared
  in the missing header) and the data of the derived class are parameters.
\<close>

definition BindStateBase_ctor3 ::
  "StartRefCountTag \<Rightarrow> 'args \<Rightarrow> InvokeFuncStorage \<Rightarrow> DestructorFunc \<Rightarrow> ('args \<Rightarrow> bool)
     \<Rightarrow> 'args BindStateBase" where
  "BindStateBase_ctor3 kRefCountPreference derived polymorphic_invoke' destructor' is_cancelled' =
     \<lparr>atomic_ref_count = atomic_ref_count (RefCountedThreadSafeBase_ctor kRefCountPreference),
      polymorphic_invoke = polymorphic_invoke',
      destructor = destructor',
      is_cancelled = is_cancelled',
      bound_args = derived\<rparr>"

text \<open>The two-argument constructor delegates with \<open>&ReturnFalse\<close>.\<close>

definition BindStateBase_ctor2 ::
  "StartRefCountTag \<Rightarrow> 'args \<Rightarrow> InvokeFuncStorage \<Rightarrow> DestructorFunc \<Rightarrow> 'args BindStateBase" where
  "BindStateBase_ctor2 kRefCountPreference derived polymorphic_invoke' destructor' =
     BindStateBase_ctor3 kRefCountPreference derived polymorphic_invoke' destructor' ReturnFalse"

text \<open>
  Modelled from the spec: \<open>BindStateBase::IsCancelled\<close> is declared in the missing header.
  "IsCancelled(): delegates to the bind state's cancellation predicate."
\<close>

definition BindStateBase_IsCancelled :: "'args BindStateBase \<Rightarrow> bool" where
  "BindStateBase_IsCancelled this = is_cancelled this (bound_args this)"

section \<open>The store of bind states\<close>

text \<open>
  Callback handles alias bind states, so bind states live in a store: a map from addresses
  to objects. An address outside the domain is not (or no longer) an object.
\<close>

type_synonym addr = nat

type_synonym 'args heap = "addr \<rightharpoonup> 'args BindStateBase"

text \<open>
  \<open>BindStateBaseRefCountTraits::Destruct\<close>: \<open>bind_state->destructor_(bind_state);\<close>.
  Modelled from the spec: the thunk behind \<open>destructor_\<close> is not among the sources; it
  "knows how to destroy the concrete derived bind-state", so the object leaves the store.
\<close>

definition BindStateBaseRefCountTraits_Destruct :: "'args heap \<Rightarrow> addr \<Rightarrow> 'args heap" where
  "BindStateBaseRefCountTraits_Destruct h bind_state = h(bind_state := None)"

text \<open>
  \<open>RefCountedThreadSafe<T, Traits>::AddRef\<close> and \<open>Release\<close> (ref\_counted.h), for
  \<open>T = BindStateBase\<close> and \<open>Traits = BindStateBaseRefCountTraits\<close>, called through a
  pointer into the store.
\<close>

definition RefCountedThreadSafe_AddRef :: "'args heap \<Rightarrow> addr \<Rightarrow> fault + 'args heap" where
  "RefCountedThreadSafe_AddRef h this =
     (case h this of
        None \<Rightarrow> Inl DanglingPointer
      | Some obj \<Rightarrow> Inr (h(this \<mapsto> RefCountedThreadSafeBase_AddRef obj)))"

definition RefCountedThreadSafe_Release :: "'args heap \<Rightarrow> addr \<Rightarrow> fault + 'args heap" where
  "RefCountedThreadSafe_Release h this =
     (case h this of
        None \<Rightarrow> Inl DanglingPointer
      | Some obj \<Rightarrow>
          (case RefCountedThreadSafeBase_Release obj of
             (should_delete, obj') \<Rightarrow>
               if should_delete
               then Inr (BindStateBaseRefCountTraits_Destruct (h(this \<mapsto> obj')) this)
               else Inr (h(this \<mapsto> obj'))))"

section \<open>\<open>scoped_refptr<BindStateBase>\<close>\<close>

text \<open>A handle is a raw pointer or null.\<close>

type_synonym scoped_refptr = "addr option"

text \<open>
  Modelled from the spec: \<open>memory/scoped_refptr.h\<close> is not among the sources.
  "Copy: increments count, aliases pointer." The result is the store and the new handle.
\<close>

definition scoped_refptr_copy ::
  "'args heap \<Rightarrow> scoped_refptr \<Rightarrow> fault + ('args heap \<times> scoped_refptr)" where
  "scoped_refptr_copy h r =
     (case r of
        None \<Rightarrow> Inr (h, None)
      | Some p \<Rightarrow>
          (case RefCountedThreadSafe_AddRef h p of
             Inl e \<Rightarrow> Inl e
           | Inr h' \<Rightarrow> Inr (h', Some p)))"

text \<open>
  Modelled from the spec: "Move: transfers pointer, leaves source null, no count change."
  The result is the new handle and the source after the move.
\<close>

definition scoped_refptr_move :: "scoped_refptr \<Rightarrow> scoped_refptr \<times> scoped_refptr" where
  "scoped_refptr_move r = (r, None)"

text \<open>
  Modelled from the spec: "Destruction/reset: decrements count, nulls pointer; triggers
  payload destruction if count reaches zero." The result is the store; the handle is null
  afterwards.
\<close>

definition scoped_refptr_reset :: "'args heap \<Rightarrow> scoped_refptr \<Rightarrow> fault + 'args heap" where
  "scoped_refptr_reset h this =
     (case this of
        None \<Rightarrow> Inr h
      | Some p \<Rightarrow> RefCountedThreadSafe_Release h p)"

text \<open>
  Modelled from the spec: copy assignment takes a copy of the right-hand side, then gives
  up what the left-hand side held. The result is the store and the assigned handle.
\<close>

definition scoped_refptr_assign ::
  "'args heap \<Rightarrow> scoped_refptr \<Rightarrow> scoped_refptr \<Rightarrow> fault + ('args heap \<times> scoped_refptr)" where
  "scoped_refptr_assign h this r =
     (case scoped_refptr_copy h r of
        Inl e \<Rightarrow> Inl e
      | Inr (h1, copied) \<Rightarrow>
          (case scoped_refptr_reset h1 this of
             Inl e \<Rightarrow> Inl e
           | Inr h2 \<Rightarrow> Inr (h2, copied)))"

text \<open>
  Modelled from the spec: move assignment takes over the right-hand side's pointer, then
  gives up what the left-hand side held. The result is the store, the assigned handle and
  the source after the move.
\<close>

definition scoped_refptr_move_assign ::
  "'args heap \<Rightarrow> scoped_refptr \<Rightarrow> scoped_refptr
     \<Rightarrow> fault + ('args heap \<times> scoped_refptr \<times> scoped_refptr)" where
  "scoped_refptr_move_assign h this r =
     (case scoped_refptr_move r of
        (moved, r') \<Rightarrow>
          (case scoped_refptr_reset h this of
             Inl e \<Rightarrow> Inl e
           | Inr h' \<Rightarrow> Inr (h', moved, r')))"

section \<open>\<open>internal::CallbackBase\<close> and \<open>CallbackBaseCopyable\<close>\<close>

text \<open>
  The data member that \<open>callback_internal.cc\<close> uses is
  \<open>scoped_refptr<BindStateBase> bind_state_\<close>. \<open>CallbackBaseCopyable\<close> adds none.
\<close>

record CallbackBase =
  bind_state :: scoped_refptr

type_synonym CallbackBaseCopyable = CallbackBase

text \<open>\<open>bool is_null() const { return bind_state_.get() == NULL; }\<close> (crbase/callback\_internal.h)\<close>

definition is_null :: "CallbackBase \<Rightarrow> bool" where
  "is_null this = (bind_state this = None)"

text \<open>\<open>CallbackBase(const CallbackBaseCopyable& c) : bind_state_(c.bind_state_) {}\<close>\<close>

definition CallbackBase_copy_ctor ::
  "'args heap \<Rightarrow> CallbackBaseCopyable \<Rightarrow> fault + ('args heap \<times> CallbackBase)" where
  "CallbackBase_copy_ctor h c =
     (case scoped_refptr_copy h (bind_state c) of
        Inl e \<Rightarrow> Inl e
      | Inr (h', p) \<Rightarrow> Inr (h', \<lparr>bind_state = p\<rparr>))"

text \<open>\<open>operator=(const CallbackBaseCopyable& c)\<close>: \<open>bind_state_ = c.bind_state_;\<close>\<close>

definition CallbackBase_copy_assign ::
  "'args heap \<Rightarrow> CallbackBase \<Rightarrow> CallbackBaseCopyable \<Rightarrow> fault + ('args heap \<times> CallbackBase)" where
  "CallbackBase_copy_assign h this c =
     (case scoped_refptr_assign h (bind_state this) (bind_state c) of
        Inl e \<Rightarrow> Inl e
      | Inr (h', p) \<Rightarrow> Inr (h', this\<lparr>bind_state := p\<rparr>))"

text \<open>
  \<open>CallbackBase(CallbackBaseCopyable&& c) : bind_state_(std::move(c.bind_state_)) {}\<close>.
  The result is the store (untouched), the new callback and the source after the move.
\<close>

definition CallbackBase_move_ctor ::
  "'args heap \<Rightarrow> CallbackBaseCopyable \<Rightarrow> 'args heap \<times> CallbackBase \<times> CallbackBaseCopyable" where
  "CallbackBase_move_ctor h c =
     (case scoped_refptr_move (bind_state c) of
        (moved, emptied) \<Rightarrow> (h, \<lparr>bind_state = moved\<rparr>, c\<lparr>bind_state := emptied\<rparr>))"

text \<open>\<open>operator=(CallbackBaseCopyable&& c)\<close>: \<open>bind_state_ = std::move(c.bind_state_);\<close>\<close>

definition CallbackBase_move_assign ::
  "'args heap \<Rightarrow> CallbackBase \<Rightarrow> CallbackBaseCopyable
     \<Rightarrow> fault + ('args heap \<times> CallbackBase \<times> CallbackBaseCopyable)" where
  "CallbackBase_move_assign h this c =
     (case scoped_refptr_move_assign h (bind_state this) (bind_state c) of
        Inl e \<Rightarrow> Inl e
      | Inr (h', moved, emptied) \<Rightarrow>
          Inr (h', this\<lparr>bind_state := moved\<rparr>, c\<lparr>bind_state := emptied\<rparr>))"

text \<open>\<open>Reset\<close>: \<open>bind_state_ = nullptr;\<close>\<close>

definition CallbackBase_Reset ::
  "'args heap \<Rightarrow> CallbackBase \<Rightarrow> fault + ('args heap \<times> CallbackBase)" where
  "CallbackBase_Reset h this =
     (case scoped_refptr_reset h (bind_state this) of
        Inl e \<Rightarrow> Inl e
      | Inr h' \<Rightarrow> Inr (h', this\<lparr>bind_state := None\<rparr>))"

text \<open>
  \<open>IsCancelled\<close>: \<open>return bind_state_->IsCancelled();\<close>. The \<open>DCHECK(bind_state_)\<close> before
  it is commented out, so a null \<open>bind_state_\<close> is dereferenced. The arrow of the handle
  reads through its raw pointer, with no check of its own.
\<close>

definition CallbackBase_IsCancelled :: "'args heap \<Rightarrow> CallbackBase \<Rightarrow> fault + bool" where
  "CallbackBase_IsCancelled h this =
     (case bind_state this of
        None \<Rightarrow> Inl NullDereference
      | Some p \<Rightarrow>
          (case h p of
             None \<Rightarrow> Inl DanglingPointer
           | Some obj \<Rightarrow> Inr (BindStateBase_IsCancelled obj)))"

text \<open>\<open>EqualsInternal\<close>: \<open>return bind_state_ == other.bind_state_;\<close>\<close>

definition EqualsInternal :: "CallbackBase \<Rightarrow> CallbackBase \<Rightarrow> bool" where
  "EqualsInternal this other = (bind_state this = bind_state other)"

text \<open>
  \<open>CallbackBaseCopyable(const CallbackBaseCopyable& c) { bind_state_ = c.bind_state_; }\<close>:
  the member is default-constructed (null), then assigned.
\<close>

definition CallbackBaseCopyable_copy_ctor ::
  "'args heap \<Rightarrow> CallbackBaseCopyable \<Rightarrow> fault + ('args heap \<times> CallbackBaseCopyable)" where
  "CallbackBaseCopyable_copy_ctor h c =
     (case scoped_refptr_assign h None (bind_state c) of
        Inl e \<Rightarrow> Inl e
      | Inr (h', p) \<Rightarrow> Inr (h', \<lparr>bind_state = p\<rparr>))"

text \<open>\<open>CallbackBaseCopyable::operator=(const CallbackBaseCopyable& c)\<close>\<close>

definition CallbackBaseCopyable_copy_assign ::
  "'args heap \<Rightarrow> CallbackBaseCopyable \<Rightarrow> CallbackBaseCopyable
     \<Rightarrow> fault + ('args heap \<times> CallbackBaseCopyable)" where
  "CallbackBaseCopyable_copy_assign h this c =
     (case scoped_refptr_assign h (bind_state this) (bind_state c) of
        Inl e \<Rightarrow> Inl e
      | Inr (h', p) \<Rightarrow> Inr (h', this\<lparr>bind_state := p\<rparr>))"

section \<open>Properties of the single-threaded count\<close>

lemma unat_pred_word32: "(x :: 32 word) \<noteq> 0 \<Longrightarrow> unat (x - 1) + 1 = unat x"
  using unat_minus_one [of x] unat_gt_0 [of x] by simp

lemma unat_succ_word32: "unat (x :: 32 word) < 2 ^ 32 - 1 \<Longrightarrow> unat (x + 1) = unat x + 1"
  by (simp add: unat_word_ariths)

lemma succ_max_word32: "unat (x :: 32 word) = 2 ^ 32 - 1 \<Longrightarrow> x + 1 = 0"
proof -
  assume top: "unat x = 2 ^ 32 - 1"
  have "unat x = unat (0xFFFFFFFF :: 32 word)"
    using top by simp
  then have "x = 0xFFFFFFFF"
    by (simp only: word_unat_eq_iff [symmetric])
  then show ?thesis
    by simp
qed

lemma word32_nonzero_iff: "(x :: 32 word) \<noteq> 0 \<longleftrightarrow> 1 \<le> unat x"
  using unat_gt_0 [of x] by auto

subsection \<open>One call\<close>




subsection \<open>Sequences of calls\<close>




subsection \<open>The count and the running count\<close>












section \<open>Claims about the single-threaded count\<close>



text \<open>
  C2, as amended. For every \<open>RefCountedBase\<close> object whose count is \<open>c \<ge> 1\<close> before the
  call, \<open>Release()\<close> returns, decrements the count by exactly one and returns true if and
  only if the new count is zero; \<open>AddRef()\<close> always returns, and increments the count by
  exactly one when \<open>c < 2^32 - 1\<close>. At \<open>c = 2^32 - 1\<close> the 32-bit count wraps to 0.
\<close>

theorem C2_release_decrements_addref_increments:
  assumes "1 \<le> unat (ref_count this)"
  shows "(case RefCountedBase_Release this of
            Inl e \<Rightarrow> False
          | Inr (should_delete, this') \<Rightarrow>
              unat (ref_count this') + 1 = unat (ref_count this)
              \<and> (should_delete \<longleftrightarrow> unat (ref_count this') = 0))
         \<and> (case RefCountedBase_AddRef this of
              Inl e \<Rightarrow> False
            | Inr this' \<Rightarrow>
                if unat (ref_count this) < 2 ^ 32 - 1
                then unat (ref_count this') = unat (ref_count this) + 1
                else unat (ref_count this') = 0)"
proof -
  from assms have nz: "ref_count this \<noteq> 0"
    by (simp add: word32_nonzero_iff)
  have rel: "unat (ref_count this - 1) + 1 = unat (ref_count this)"
    using nz by (rule unat_pred_word32)
  have "unat (ref_count this) < 2 ^ 32"
    using unsigned_less [of "ref_count this"] by simp
  then have top: "\<not> unat (ref_count this) < 2 ^ 32 - 1 \<Longrightarrow> ref_count this + 1 = 0"
    by (intro succ_max_word32) simp
  show ?thesis
    using rel top
    by (simp add: RefCountedBase_Release_def RefCountedBase_AddRef_def
        RefCountedBase_AddRefImpl_def Let_def unat_succ_word32 unat_eq_0)
qed

theorem C2_release_decrements_addref_increments_witness:
  "1 \<le> unat (ref_count \<lparr>ref_count = 2\<rparr>)
   \<and> RefCountedBase_Release \<lparr>ref_count = 2\<rparr> = Inr (False, \<lparr>ref_count = 1\<rparr>)
   \<and> RefCountedBase_AddRef \<lparr>ref_count = 2\<rparr> = Inr \<lparr>ref_count = 3\<rparr>"
  using C2_release_decrements_addref_increments [of "\<lparr>ref_count = 2\<rparr>"]
  by (simp add: RefCountedBase_Release_def RefCountedBase_AddRef_def
      RefCountedBase_AddRefImpl_def Let_def)

text \<open>
  Counterexample to C2 as stated: the count \<open>2^32 - 1\<close> is at least one, and \<open>AddRef()\<close>
  leaves the count at 0, not at \<open>2^32\<close>.
\<close>

theorem C2_counterexample:
  "1 \<le> unat (ref_count \<lparr>ref_count = 0xFFFFFFFF\<rparr>)
   \<and> RefCountedBase_AddRef \<lparr>ref_count = 0xFFFFFFFF\<rparr> = Inr \<lparr>ref_count = 0\<rparr>"
  by (simp add: RefCountedBase_AddRef_def RefCountedBase_AddRefImpl_def)

text \<open>
  C3, as amended. In this build the "needs adoption" flag and the assertion that reads it
  are commented out. For every payload, and so for one constructed with the
  start-from-one policy, \<open>Adopted()\<close> returns the object unchanged, and \<open>AddRef()\<close>
  returns with the count incremented and trips no assertion, whether \<open>Adopted()\<close> was
  called before it or not.
\<close>

theorem C3_adoption_not_checked:
  "RefCountedBase_Adopted this = Inr this
   \<and> RefCountedBase_AddRef this = Inr (this\<lparr>ref_count := ref_count this + 1\<rparr>)
   \<and> (case RefCountedBase_Adopted this of
        Inl e \<Rightarrow> Inl e
      | Inr adopted \<Rightarrow> RefCountedBase_AddRef adopted) = RefCountedBase_AddRef this
   \<and> RefCountedBase_AddRef this \<noteq> Inl AssertionFailure"
  by (simp add: RefCountedBase_Adopted_def RefCountedBase_AddRef_def
      RefCountedBase_AddRefImpl_def)

text \<open>
  Counterexample to C3 as stated: on a payload constructed with the start-from-one policy
  and never adopted, \<open>AddRef()\<close> returns normally with the count at 2.
\<close>

theorem C3_counterexample:
  "RefCountedBase_AddRef (RefCountedBase_ctor StartRefCountFromOneTag) = Inr \<lparr>ref_count = 2\<rparr>"
  by (simp add: RefCountedBase_AddRef_def RefCountedBase_AddRefImpl_def)

text \<open>
  C9. On \<open>RefCountedBase\<close> the count is an unsigned 32-bit integer. \<open>Release()\<close> called
  when the count is 0 wraps the count to \<open>2^32 - 1\<close> and returns false without any
  error; \<open>RefCounted::Release()\<close> then does not invoke \<open>Traits::Destruct\<close>.
\<close>

theorem C9_release_at_zero_wraps:
  assumes "ref_count this = 0"
  shows "RefCountedBase_Release this = Inr (False, this\<lparr>ref_count := 0xFFFFFFFF\<rparr>)
         \<and> unat (0xFFFFFFFF :: 32 word) = 2 ^ 32 - 1
         \<and> RefCounted_Release this = Inr (this\<lparr>ref_count := 0xFFFFFFFF\<rparr>)
         \<and> destruct_calls (this\<lparr>ref_count := 0xFFFFFFFF\<rparr>) = destruct_calls this"
  using assms
  by (simp add: RefCountedBase_Release_def RefCounted_Release_def Let_def)

theorem C9_release_at_zero_wraps_witness:
  "ref_count (RefCounted_ctor StartRefCountFromZeroTag) = 0
   \<and> RefCounted_Release (RefCounted_ctor StartRefCountFromZeroTag)
       = Inr \<lparr>ref_count = 0xFFFFFFFF, destruct_calls = 0\<rparr>"
  using C9_release_at_zero_wraps [of "RefCounted_ctor StartRefCountFromZeroTag"]
  by (simp add: RefCounted_ctor_def)

section \<open>Claims about callback handles\<close>

lemma release_live:
  assumes "h p = Some obj"
  shows "RefCountedThreadSafe_Release h p =
           Inr (if atomic_ref_count obj - 1 = 0 then h(p := None)
                else h(p \<mapsto> obj\<lparr>atomic_ref_count := atomic_ref_count obj - 1\<rparr>))"
  using assms
  by (simp add: RefCountedThreadSafe_Release_def RefCountedThreadSafeBase_Release_def
      RefCountedThreadSafeBase_ReleaseImpl_def AtomicRefCount_Decrement_def
      BindStateBaseRefCountTraits_Destruct_def)

lemma add_ref_live:
  assumes "h p = Some obj"
  shows "RefCountedThreadSafe_AddRef h p =
           Inr (h(p \<mapsto> obj\<lparr>atomic_ref_count := atomic_ref_count obj + 1\<rparr>))"
  using assms
  by (simp add: RefCountedThreadSafe_AddRef_def RefCountedThreadSafeBase_AddRef_def
      RefCountedThreadSafeBase_AddRefImpl_def AtomicRefCount_Increment_def)

text \<open>
  C4. For every non-null owning handle whose bind state is in the store, copying it
  (\<open>scoped_refptr\<close>, \<open>CallbackBase\<close> from a copyable callback, \<open>CallbackBaseCopyable\<close>)
  raises the count of that bind state by exactly one, changes nothing else in the store,
  and yields a handle to the same object, equal to the source by \<open>EqualsInternal\<close>.
  Moving it yields a handle to the same object, leaves the store as it was, and leaves
  the source null.
\<close>

theorem C4_copy_adds_one_move_transfers:
  assumes "bind_state c = Some p" and "h p = Some obj"
  shows "scoped_refptr_copy h (bind_state c) =
           Inr (h(p \<mapsto> obj\<lparr>atomic_ref_count := atomic_ref_count obj + 1\<rparr>), Some p)
         \<and> CallbackBaseCopyable_copy_ctor h c =
             Inr (h(p \<mapsto> obj\<lparr>atomic_ref_count := atomic_ref_count obj + 1\<rparr>),
                  \<lparr>bind_state = Some p\<rparr>)
         \<and> CallbackBase_copy_ctor h c =
             Inr (h(p \<mapsto> obj\<lparr>atomic_ref_count := atomic_ref_count obj + 1\<rparr>),
                  \<lparr>bind_state = Some p\<rparr>)
         \<and> EqualsInternal \<lparr>bind_state = Some p\<rparr> c
         \<and> scoped_refptr_move (bind_state c) = (Some p, None)
         \<and> CallbackBase_move_ctor h c = (h, \<lparr>bind_state = Some p\<rparr>, c\<lparr>bind_state := None\<rparr>)
         \<and> is_null (c\<lparr>bind_state := None\<rparr>)"
  using assms add_ref_live [of h p obj]
  by (simp add: scoped_refptr_copy_def scoped_refptr_assign_def scoped_refptr_reset_def
      scoped_refptr_move_def CallbackBaseCopyable_copy_ctor_def CallbackBase_copy_ctor_def
      CallbackBase_move_ctor_def EqualsInternal_def is_null_def)

text \<open>
  Witness for C4: one bind state at address 0, with count 1 and the bound arguments (3, 4);
  the copy raises the count to 2.
\<close>

theorem C4_copy_adds_one_move_transfers_witness:
  "bind_state \<lparr>bind_state = Some 0\<rparr> = Some 0
   \<and> [0 \<mapsto> BindStateBase_ctor2 StartRefCountFromOneTag (3 :: nat, 4 :: nat)
             (InvokeFunc 0) (DestructorFunc 0)] 0
       = Some (BindStateBase_ctor2 StartRefCountFromOneTag (3, 4) (InvokeFunc 0) (DestructorFunc 0))
   \<and> (case CallbackBaseCopyable_copy_ctor
              [0 \<mapsto> BindStateBase_ctor2 StartRefCountFromOneTag (3 :: nat, 4 :: nat)
                    (InvokeFunc 0) (DestructorFunc 0)]
              \<lparr>bind_state = Some 0\<rparr> of
         Inl e \<Rightarrow> False
       | Inr (h', copied) \<Rightarrow>
           map_option atomic_ref_count (h' 0) = Some 2 \<and> bind_state copied = Some 0)"
  using C4_copy_adds_one_move_transfers
    [of "\<lparr>bind_state = Some 0\<rparr>" 0
        "[0 \<mapsto> BindStateBase_ctor2 StartRefCountFromOneTag (3 :: nat, 4 :: nat)
              (InvokeFunc 0) (DestructorFunc 0)]"
        "BindStateBase_ctor2 StartRefCountFromOneTag (3, 4) (InvokeFunc 0) (DestructorFunc 0)"]
  by (simp add: BindStateBase_ctor2_def BindStateBase_ctor3_def)

text \<open>
  C5. \<open>EqualsInternal\<close> returns true if and only if the two handles hold the same pointer
  (two null handles hold the same, null, pointer). In particular, when two bind states are
  constructed one after the other from the same function and the same argument values,
  each at an address that holds no object yet, the two objects have equal contents and
  the callbacks that reference them compare unequal.
\<close>

theorem C5_equality_is_identity:
  "(EqualsInternal a b \<longleftrightarrow> bind_state a = bind_state b)
   \<and> (p \<notin> dom h \<longrightarrow>
        q \<notin> dom (h(p \<mapsto> BindStateBase_ctor3 tag args invoke destroy cancelled)) \<longrightarrow>
        (h(p \<mapsto> BindStateBase_ctor3 tag args invoke destroy cancelled,
           q \<mapsto> BindStateBase_ctor3 tag args invoke destroy cancelled)) p
        = (h(p \<mapsto> BindStateBase_ctor3 tag args invoke destroy cancelled,
             q \<mapsto> BindStateBase_ctor3 tag args invoke destroy cancelled)) q
        \<and> \<not> EqualsInternal \<lparr>bind_state = Some p\<rparr> \<lparr>bind_state = Some q\<rparr>)"
  by (auto simp: EqualsInternal_def)

theorem C5_equality_is_identity_witness:
  "(0 :: addr) \<notin> dom (Map.empty :: (nat \<times> nat) heap)
   \<and> (1 :: addr) \<notin> dom ([0 \<mapsto> BindStateBase_ctor3 StartRefCountFromOneTag (3 :: nat, 4 :: nat)
                                 (InvokeFunc 0) (DestructorFunc 0) ReturnFalse])
   \<and> \<not> EqualsInternal \<lparr>bind_state = Some 0\<rparr> \<lparr>bind_state = Some 1\<rparr>
   \<and> EqualsInternal \<lparr>bind_state = Some 0\<rparr> \<lparr>bind_state = Some 0\<rparr>"
  using C5_equality_is_identity
    [of "\<lparr>bind_state = Some 0\<rparr>" "\<lparr>bind_state = Some 0\<rparr>" 0
        "Map.empty :: (nat \<times> nat) heap" 1 StartRefCountFromOneTag "(3, 4)"
        "InvokeFunc 0" "DestructorFunc 0" ReturnFalse]
  by simp

text \<open>
  C6. \<open>is_null()\<close> is true if and only if the handle holds no bind state. \<open>Reset()\<close> on a
  null handle leaves the store alone; on a handle to a bind state in the store it
  decrements that bind state's count by one, destroying the bind state when the count
  reaches zero; in both cases the handle is null afterwards.
\<close>

theorem C6_is_null_and_reset:
  "(is_null cb \<longleftrightarrow> bind_state cb = None)
   \<and> is_null (cb\<lparr>bind_state := None\<rparr>)
   \<and> (case bind_state cb of
        None \<Rightarrow> CallbackBase_Reset h cb = Inr (h, cb\<lparr>bind_state := None\<rparr>)
      | Some p \<Rightarrow>
          (case h p of
             None \<Rightarrow> CallbackBase_Reset h cb = Inl DanglingPointer
           | Some obj \<Rightarrow>
               CallbackBase_Reset h cb =
                 Inr (if atomic_ref_count obj - 1 = 0 then h(p := None)
                      else h(p \<mapsto> obj\<lparr>atomic_ref_count := atomic_ref_count obj - 1\<rparr>),
                      cb\<lparr>bind_state := None\<rparr>)))"
proof (cases "bind_state cb")
  case None
  then show ?thesis
    by (simp add: is_null_def CallbackBase_Reset_def scoped_refptr_reset_def)
next
  case (Some p)
  show ?thesis
  proof (cases "h p")
    case None
    with Some show ?thesis
      by (simp add: is_null_def CallbackBase_Reset_def scoped_refptr_reset_def
          RefCountedThreadSafe_Release_def)
  next
    case (Some obj)
    with \<open>bind_state cb = Some p\<close> release_live [of h p obj] show ?thesis
      by (simp add: is_null_def CallbackBase_Reset_def scoped_refptr_reset_def)
  qed
qed

text \<open>
  Witness for C6: a bind state with count 2 at address 0; after \<open>Reset()\<close> the handle is
  null and the count is 1.
\<close>

theorem C6_is_null_and_reset_witness:
  "(case CallbackBase_Reset
           [0 \<mapsto> (BindStateBase_ctor2 StartRefCountFromOneTag (3 :: nat, 4 :: nat)
                    (InvokeFunc 0) (DestructorFunc 0))\<lparr>atomic_ref_count := 2\<rparr>]
           \<lparr>bind_state = Some 0\<rparr> of
      Inl e \<Rightarrow> False
    | Inr (h', cb') \<Rightarrow> is_null cb' \<and> map_option atomic_ref_count (h' 0) = Some 1)"
  using C6_is_null_and_reset
    [of "\<lparr>bind_state = Some 0\<rparr>"
        "[0 \<mapsto> (BindStateBase_ctor2 StartRefCountFromOneTag (3 :: nat, 4 :: nat)
                 (InvokeFunc 0) (DestructorFunc 0))\<lparr>atomic_ref_count := 2\<rparr>]"]
  by (simp add: BindStateBase_ctor2_def BindStateBase_ctor3_def is_null_def)

text \<open>
  C7. The constructor without a cancellation predicate installs \<open>ReturnFalse\<close>, and
  \<open>IsCancelled()\<close> returns false on every non-null callback whose bind state was
  constructed that way, whatever its count has become since.
\<close>

theorem C7_default_never_cancelled:
  "is_cancelled (BindStateBase_ctor2 tag args invoke destroy) = ReturnFalse
   \<and> (bind_state cb = Some p \<longrightarrow>
        h p = Some ((BindStateBase_ctor2 tag args invoke destroy)\<lparr>atomic_ref_count := n\<rparr>) \<longrightarrow>
        CallbackBase_IsCancelled h cb = Inr False)"
  by (simp add: BindStateBase_ctor2_def BindStateBase_ctor3_def CallbackBase_IsCancelled_def
      BindStateBase_IsCancelled_def ReturnFalse_def)

theorem C7_default_never_cancelled_witness:
  "bind_state \<lparr>bind_state = Some 0\<rparr> = Some 0
   \<and> CallbackBase_IsCancelled
       [0 \<mapsto> (BindStateBase_ctor2 StartRefCountFromOneTag (3 :: nat, 4 :: nat)
                (InvokeFunc 0) (DestructorFunc 0))\<lparr>atomic_ref_count := 1\<rparr>]
       \<lparr>bind_state = Some 0\<rparr> = Inr False"
  using C7_default_never_cancelled
    [of StartRefCountFromOneTag "(3 :: nat, 4 :: nat)" "InvokeFunc 0" "DestructorFunc 0"
        "\<lparr>bind_state = Some 0\<rparr>" 0
        "[0 \<mapsto> (BindStateBase_ctor2 StartRefCountFromOneTag (3 :: nat, 4 :: nat)
                 (InvokeFunc 0) (DestructorFunc 0))\<lparr>atomic_ref_count := 1\<rparr>]" 1]
  by simp

text \<open>
  C10. \<open>IsCancelled()\<close> on a null callback dereferences the null pointer: no assertion
  stands before the dereference. The null dereference happens for the null callbacks and
  for no other.
\<close>

theorem C10_is_cancelled_null_dereference:
  "(is_null cb \<longrightarrow> CallbackBase_IsCancelled h cb = Inl NullDereference)
   \<and> (\<not> is_null cb \<longrightarrow> CallbackBase_IsCancelled h cb \<noteq> Inl NullDereference)
   \<and> CallbackBase_IsCancelled h cb \<noteq> Inl AssertionFailure"
  by (simp add: is_null_def CallbackBase_IsCancelled_def split: option.split)

theorem C10_is_cancelled_null_dereference_witness:
  "is_null \<lparr>bind_state = None\<rparr>
   \<and> CallbackBase_IsCancelled (Map.empty :: (nat \<times> nat) heap) \<lparr>bind_state = None\<rparr>
       = Inl NullDereference"
  using C10_is_cancelled_null_dereference
    [of "\<lparr>bind_state = None\<rparr>" "Map.empty :: (nat \<times> nat) heap"]
  by (simp add: is_null_def)

end
